theory Spec2Isabelle
  imports Complex_Main
begin

section \<open>Strings, errors and JavaScript truthiness\<close>

text \<open>
  The verified code is the metrics query builder of the ClickHouse package
  (\<^verbatim>\<open>metrics.ts\<close>), the \<^verbatim>\<open>MetricsService\<close> of the webapp and the loader of the
  metrics resource route. JavaScript strings are modelled as \<^typ>\<open>string\<close>; every
  \<^verbatim>\<open>throw new Error(msg)\<close> is the value \<open>Inl (Error msg)\<close> of a sum type. The code
  inspects characters only to tell decimal digits and the letters \<open>s\<close>, \<open>m\<close>, \<open>h\<close>, \<open>d\<close>
  from all others, and compares whole strings.
\<close>

datatype error = Error string

definition nl :: string where
  "nl = [CHR 0x0A]"

text \<open>
  JavaScript tests optional fields by truthiness: \<^verbatim>\<open>if (params.endTime)\<close> is taken
  when the field is defined and is neither the empty string nor the number zero. A time
  is a string or a number, as the schema declares it; the numbers of the model are the
  finite ones (the schema refuses \<^verbatim>\<open>NaN\<close>).
\<close>

definition truthy_string :: "string \<Rightarrow> bool" where
  "truthy_string s \<longleftrightarrow> s \<noteq> []"

datatype time_value = TimeString string | TimeNumber real

fun truthy_time :: "time_value \<Rightarrow> bool" where
  "truthy_time (TimeString s) = truthy_string s"
| "truthy_time (TimeNumber n) = (n \<noteq> 0)"

section \<open>Granularity grammar\<close>

definition is_digit :: "char \<Rightarrow> bool" where
  "is_digit c \<longleftrightarrow> c \<in> set ''0123456789''"

definition is_unit_letter :: "char \<Rightarrow> bool" where
  "is_unit_letter c \<longleftrightarrow> c \<in> set ''smhd''"

text \<open>
  \<^verbatim>\<open>granularity.match(/^(\d+)([smhd])$/)\<close>: the two capture groups \<open>(amount, unit)\<close>
  when the whole string is one or more decimal digits followed by one unit letter, and
  \<open>None\<close> (JavaScript \<^verbatim>\<open>null\<close>) otherwise. Without the \<^verbatim>\<open>m\<close> flag \<^verbatim>\<open>$\<close> is the end of
  the input.
\<close>

definition granularity_match :: "string \<Rightarrow> (string \<times> char) option" where
  "granularity_match granularity =
     (if granularity = [] then None
      else if butlast granularity \<noteq> [] \<and> list_all is_digit (butlast granularity)
                \<and> is_unit_letter (last granularity)
           then Some (butlast granularity, last granularity)
           else None)"

text \<open>The grammar \<^verbatim>\<open>^(\d+)([smhd])$\<close> as the specification words it.\<close>

definition matches_grammar :: "string \<Rightarrow> bool" where
  "matches_grammar g \<longleftrightarrow>
     (\<exists>ds u. g = ds @ [u] \<and> ds \<noteq> [] \<and> (\<forall>d \<in> set ds. is_digit d) \<and> is_unit_letter u)"

definition unitMap :: "char \<Rightarrow> string" where
  "unitMap unit =
     (if unit = CHR ''s'' then ''SECOND''
      else if unit = CHR ''m'' then ''MINUTE''
      else if unit = CHR ''h'' then ''HOUR''
      else if unit = CHR ''d'' then ''DAY''
      else ''undefined'')"

definition granularityToInterval :: "string \<Rightarrow> error + string" where
  \<open>granularityToInterval granularity =
     (case granularity_match granularity of
        None \<Rightarrow>
          Inl (Error (''Invalid granularity format: '' @ granularity
                        @ ''. Expected format like "1m", "5m", "1h", "1d"''))
      | Some (amount, unit) \<Rightarrow> Inr (amount @ '' '' @ unitMap unit))\<close>

definition getTimeBucketFunction :: "string \<Rightarrow> string" where
  "getTimeBucketFunction granularity =
     (case granularity_match granularity of
        None \<Rightarrow> ''toStartOfMinute(toDateTime(created_at))''
      | Some (amount, unit) \<Rightarrow>
          if unit = CHR ''s'' \<or> unit = CHR ''m'' then ''toStartOfMinute(toDateTime(created_at))''
          else if unit = CHR ''h'' then ''toStartOfHour(toDateTime(created_at))''
          else if unit = CHR ''d'' then ''toDate(toDateTime(created_at))''
          else ''toStartOfMinute(toDateTime(created_at))'')"

section \<open>Aggregation expressions\<close>

datatype rollup_type = Rcount | Rsum | Ravg | Rmin | Rmax | Rdistinct

fun rollup_type_string :: "rollup_type \<Rightarrow> string" where
  "rollup_type_string Rcount = ''count''"
| "rollup_type_string Rsum = ''sum''"
| "rollup_type_string Ravg = ''avg''"
| "rollup_type_string Rmin = ''min''"
| "rollup_type_string Rmax = ''max''"
| "rollup_type_string Rdistinct = ''distinct''"

text \<open>
  The \<^verbatim>\<open>default\<close> branch of the source's \<^verbatim>\<open>switch\<close> is unreachable for the six
  values of the union type, so it has no equation here.
\<close>

fun buildAggregationExpression :: "rollup_type \<Rightarrow> string \<Rightarrow> string" where
  "buildAggregationExpression Rcount column =
     (if column = ''*'' then ''count()'' else ''count('' @ column @ '')'')"
| "buildAggregationExpression Rsum column = ''sum('' @ column @ '')''"
| "buildAggregationExpression Ravg column = ''avg('' @ column @ '')''"
| "buildAggregationExpression Rmin column = ''min('' @ column @ '')''"
| "buildAggregationExpression Rmax column = ''max('' @ column @ '')''"
| "buildAggregationExpression Rdistinct column = ''uniq('' @ column @ '')''"

section \<open>The query builder\<close>

text \<open>
  The optional ClickHouse settings handed through to the client: setting names with
  their values, written as text.
\<close>

type_synonym ClickHouseSettings = "(string \<times> string) list"

datatype param_value = PString string | PTime time_value

datatype clause =
    Where string "(string \<times> param_value) list"
  | GroupBy string
  | OrderBy string

text \<open>
  Modelled from the spec: the chainable builder returned by \<^verbatim>\<open>ch.queryBuilder\<close> belongs
  to the ClickHouse client, which is not part of the sources. The specification describes
  it as a builder that accumulates WHERE, GROUP BY and ORDER BY clauses. It is modelled
  as the options it was created with (name, base query, settings) together with the
  sequence of calls it has received, in order. A factory call \<^verbatim>\<open>queryBuilder()\<close> yields
  a builder that has received no call.
\<close>

record builder =
  name :: string
  baseQuery :: string
  settings :: "ClickHouseSettings option"
  clauses :: "clause list"

definition ch_queryBuilder :: "string \<Rightarrow> string \<Rightarrow> ClickHouseSettings option \<Rightarrow> builder" where
  "ch_queryBuilder n q s = \<lparr>name = n, baseQuery = q, settings = s, clauses = []\<rparr>"

definition b_where :: "string \<Rightarrow> (string \<times> param_value) list \<Rightarrow> builder \<Rightarrow> builder" where
  "b_where text ps b = b\<lparr>clauses := clauses b @ [Where text ps]\<rparr>"

definition b_groupBy :: "string \<Rightarrow> builder \<Rightarrow> builder" where
  "b_groupBy col b = b\<lparr>clauses := clauses b @ [GroupBy col]\<rparr>"

definition b_orderBy :: "string \<Rightarrow> builder \<Rightarrow> builder" where
  "b_orderBy ord b = b\<lparr>clauses := clauses b @ [OrderBy ord]\<rparr>"

fun is_groupBy :: "clause \<Rightarrow> bool" where
  "is_groupBy (GroupBy c) = True"
| "is_groupBy (Where t ps) = False"
| "is_groupBy (OrderBy c) = False"

section \<open>Query parameters\<close>

record filters =
  task_identifier :: "string option"
  status :: "string option"
  queue :: "string option"

record rollup =
  type :: rollup_type
  column :: string

text \<open>
  The API parameters of the webapp (\<^verbatim>\<open>api/metric.ts\<close>) and the parameters of the
  ClickHouse package carry the same fields; the latter add the tenant scope.
\<close>

record APIMetricQueryParams =
  startTime :: time_value
  endTime :: "time_value option"
  granularity :: string
  filters :: "filters option"
  groupBy :: "string option"
  rollup :: "rollup option"

record MetricQueryParams = APIMetricQueryParams +
  organizationId :: string
  projectId :: string
  environmentId :: string

section \<open>Base queries\<close>

definition getDynamicMetricsQueryBuilder ::
  "string \<Rightarrow> rollup_type \<Rightarrow> string \<Rightarrow> ClickHouseSettings option \<Rightarrow> builder" where
  "getDynamicMetricsQueryBuilder gran rollupType col sett =
     (let timeBucketFunction = getTimeBucketFunction gran;
          aggregationExpression = buildAggregationExpression rollupType col
      in ch_queryBuilder
           (''getDynamicMetrics_'' @ rollup_type_string rollupType @ ''_'' @ col
              @ ''_'' @ gran)
           (nl @ ''      SELECT'' @ nl
              @ ''        '' @ timeBucketFunction @ '' as timestamp,'' @ nl
              @ ''        '' @ aggregationExpression @ '' as value'' @ nl
              @ ''      FROM trigger_dev.task_runs_v2 FINAL'' @ nl
              @ ''    '')
           sett)"

definition getTaskRunCountMetrics :: "ClickHouseSettings option \<Rightarrow> builder" where
  "getTaskRunCountMetrics sett =
     ch_queryBuilder ''getTaskRunCountMetrics''
       (nl @ ''      SELECT'' @ nl
          @ ''        '' @ getTimeBucketFunction ''1m'' @ '' as timestamp,'' @ nl
          @ ''        count() as value,'' @ nl
          @ ''        task_identifier as label'' @ nl
          @ ''      FROM trigger_dev.task_runs_v2 FINAL'' @ nl
          @ ''    '')
       sett"

definition getTaskRunDurationMetrics :: "ClickHouseSettings option \<Rightarrow> builder" where
  "getTaskRunDurationMetrics sett =
     ch_queryBuilder ''getTaskRunDurationMetrics''
       (nl @ ''      SELECT'' @ nl
          @ ''        '' @ getTimeBucketFunction ''1m'' @ '' as timestamp,'' @ nl
          @ ''        avg(usage_duration_ms) as value,'' @ nl
          @ ''        task_identifier as label'' @ nl
          @ ''      FROM trigger_dev.task_runs_v2 FINAL'' @ nl
          @ ''      WHERE usage_duration_ms > 0'' @ nl
          @ ''    '')
       sett"

definition getTaskRunCostMetrics :: "ClickHouseSettings option \<Rightarrow> builder" where
  "getTaskRunCostMetrics sett =
     ch_queryBuilder ''getTaskRunCostMetrics''
       (nl @ ''      SELECT'' @ nl
          @ ''        '' @ getTimeBucketFunction ''1m'' @ '' as timestamp,'' @ nl
          @ ''        sum(cost_in_cents) as value,'' @ nl
          @ ''        task_identifier as label'' @ nl
          @ ''      FROM trigger_dev.task_runs_v2 FINAL'' @ nl
          @ ''      WHERE cost_in_cents > 0'' @ nl
          @ ''    '')
       sett"

definition getTaskRunStatusMetrics :: "ClickHouseSettings option \<Rightarrow> builder" where
  "getTaskRunStatusMetrics sett =
     ch_queryBuilder ''getTaskRunStatusMetrics''
       (nl @ ''      SELECT'' @ nl
          @ ''        '' @ getTimeBucketFunction ''1m'' @ '' as timestamp,'' @ nl
          @ ''        count() as value,'' @ nl
          @ ''        status as label'' @ nl
          @ ''      FROM trigger_dev.task_runs_v2 FINAL'' @ nl
          @ ''    '')
       sett"

datatype aggregation = AggCount | AggSum | AggAvg | AggMin | AggMax

fun aggregation_string :: "aggregation \<Rightarrow> string" where
  "aggregation_string AggCount = ''count''"
| "aggregation_string AggSum = ''sum''"
| "aggregation_string AggAvg = ''avg''"
| "aggregation_string AggMin = ''min''"
| "aggregation_string AggMax = ''max''"

text \<open>The two parts that \<^verbatim>\<open>getCustomMetrics\<close> concatenates into its base query.\<close>

definition custom_baseQuery :: "aggregation \<Rightarrow> string \<Rightarrow> string" where
  "custom_baseQuery aggregation col =
     nl @ ''    SELECT'' @ nl
        @ ''      '' @ getTimeBucketFunction ''1m'' @ '' as timestamp,'' @ nl
        @ ''      '' @ aggregation_string aggregation @ ''('' @ col @ '') as value,'' @ nl
        @ ''      task_identifier as label'' @ nl
        @ ''    FROM trigger_dev.task_runs_v2 FINAL'' @ nl
        @ ''  ''"

definition custom_whereClause :: "aggregation \<Rightarrow> string \<Rightarrow> string" where
  "custom_whereClause aggregation col =
     (if aggregation = AggAvg \<or> aggregation = AggSum \<or> aggregation = AggMin
           \<or> aggregation = AggMax
      then ''WHERE '' @ col @ '' > 0''
      else [])"

definition getCustomMetrics ::
  "string \<Rightarrow> aggregation \<Rightarrow> string \<Rightarrow> ClickHouseSettings option \<Rightarrow> builder" where
  "getCustomMetrics metric aggregation col sett =
     ch_queryBuilder
       (''getCustomMetrics_'' @ metric @ ''_'' @ aggregation_string aggregation)
       (custom_baseQuery aggregation col @ custom_whereClause aggregation col)
       sett"

section \<open>Composing a metrics query\<close>

datatype metricType = MCount | MDuration | MCost | MStatus | MCustom

record customMetric =
  aggregation :: aggregation
  agg_column :: string

text \<open>
  The first part of \<^verbatim>\<open>createMetricsQuery\<close>: the choice of the query builder. The
  \<^verbatim>\<open>default\<close> branch of the \<^verbatim>\<open>switch\<close> over the metric type is unreachable for the
  five values of the union type.
\<close>

definition select_queryBuilder ::
  "MetricQueryParams \<Rightarrow> metricType option \<Rightarrow> customMetric option \<Rightarrow> error + builder" where
  "select_queryBuilder params metricType customMetric =
     (case rollup params of
        Some r \<Rightarrow>
          Inr (getDynamicMetricsQueryBuilder (granularity params) (type r) (column r) None)
      | None \<Rightarrow>
          (case metricType of
             Some MCount \<Rightarrow> Inr (getTaskRunCountMetrics None)
           | Some MDuration \<Rightarrow> Inr (getTaskRunDurationMetrics None)
           | Some MCost \<Rightarrow> Inr (getTaskRunCostMetrics None)
           | Some MStatus \<Rightarrow> Inr (getTaskRunStatusMetrics None)
           | Some MCustom \<Rightarrow>
               (case customMetric of
                  None \<Rightarrow> Inl (Error ''customMetric is required for custom metric type'')
                | Some c \<Rightarrow> Inr (getCustomMetrics ''custom'' (aggregation c) (agg_column c) None))
           | None \<Rightarrow> Inl (Error ''Either metricType or rollup must be specified'')))"

text \<open>The standard filters: tenant scope, soft delete and start time.\<close>

definition add_standard_filters :: "MetricQueryParams \<Rightarrow> builder \<Rightarrow> builder" where
  "add_standard_filters params b =
     b_where ''created_at >= toUnixTimestamp({startTime:DateTime64})''
         [(''startTime'', PTime (startTime params))]
       (b_where ''_is_deleted = 0'' []
         (b_where ''environment_id = {environmentId:String}''
             [(''environmentId'', PString (environmentId params))]
           (b_where ''project_id = {projectId:String}''
               [(''projectId'', PString (projectId params))]
             (b_where ''organization_id = {organizationId:String}''
                 [(''organizationId'', PString (organizationId params))] b))))"

definition add_endTime_filter :: "MetricQueryParams \<Rightarrow> builder \<Rightarrow> builder" where
  "add_endTime_filter params b =
     (case endTime params of
        Some t \<Rightarrow>
          if truthy_time t
          then b_where ''created_at <= toUnixTimestamp({endTime:DateTime64})''
                 [(''endTime'', PTime t)] b
          else b
      | None \<Rightarrow> b)"

text \<open>
  The optional filters. \<^verbatim>\<open>params.filters?.status\<close> is the field when the filters object
  is there, and undefined otherwise.
\<close>

definition add_optional_filters :: "MetricQueryParams \<Rightarrow> builder \<Rightarrow> builder" where
  "add_optional_filters params b =
     (let b1 = (case Option.bind (filters params) task_identifier of
                  Some v \<Rightarrow>
                    if truthy_string v
                    then b_where ''task_identifier = {taskIdentifier:String}''
                           [(''taskIdentifier'', PString v)] b
                    else b
                | None \<Rightarrow> b);
          b2 = (case Option.bind (filters params) status of
                  Some v \<Rightarrow>
                    if truthy_string v
                    then b_where ''status = {status:String}'' [(''status'', PString v)] b1
                    else b1
                | None \<Rightarrow> b1)
      in (case Option.bind (filters params) queue of
            Some v \<Rightarrow>
              if truthy_string v
              then b_where ''queue = {queue:String}'' [(''queue'', PString v)] b2
              else b2
          | None \<Rightarrow> b2))"

definition add_grouping :: "MetricQueryParams \<Rightarrow> builder \<Rightarrow> builder" where
  "add_grouping params b =
     (case groupBy params of
        Some g \<Rightarrow>
          if truthy_string g \<and> g \<noteq> ''task_identifier'' then b_groupBy g b
          else if \<not> truthy_string g \<and> rollup params = None
               then b_groupBy ''task_identifier'' b
               else b
      | None \<Rightarrow>
          if rollup params = None then b_groupBy ''task_identifier'' b else b)"

definition createMetricsQuery ::
  "MetricQueryParams \<Rightarrow> metricType option \<Rightarrow> customMetric option \<Rightarrow> error + builder" where
  "createMetricsQuery params metricType customMetric =
     (case select_queryBuilder params metricType customMetric of
        Inl e \<Rightarrow> Inl e
      | Inr queryBuilder \<Rightarrow>
          Inr (b_orderBy ''timestamp ASC''
                (add_grouping params
                  (add_optional_filters params
                    (add_endTime_filter params
                      (add_standard_filters params queryBuilder))))))"

text \<open>
  The clause that an optional value contributes: one clause when the value is defined
  and truthy, none otherwise.
\<close>

definition when_truthy :: "'a option \<Rightarrow> ('a \<Rightarrow> bool) \<Rightarrow> ('a \<Rightarrow> clause) \<Rightarrow> clause list" where
  "when_truthy v t c = (case v of Some x \<Rightarrow> if t x then [c x] else [] | None \<Rightarrow> [])"

text \<open>The group-by clause, if any, that \<^verbatim>\<open>createMetricsQuery\<close> adds for given parameters.\<close>

definition grouping_clauses :: "MetricQueryParams \<Rightarrow> clause list" where
  "grouping_clauses params =
     (case groupBy params of
        Some g \<Rightarrow>
          if truthy_string g \<and> g \<noteq> ''task_identifier'' then [GroupBy g]
          else if \<not> truthy_string g \<and> rollup params = None
               then [GroupBy ''task_identifier'']
               else []
      | None \<Rightarrow> if rollup params = None then [GroupBy ''task_identifier''] else [])"

text \<open>Parameters in the style of the usage examples, for concrete evaluations.\<close>

definition example_params :: MetricQueryParams where
  "example_params =
     \<lparr>startTime = TimeNumber 1700000000,
      endTime = None,
      granularity = ''15m'',
      filters = None,
      groupBy = None,
      rollup = None,
      organizationId = ''org_123'',
      projectId = ''proj_456'',
      environmentId = ''env_789''\<rparr>"

section \<open>The metrics service of the webapp\<close>

definition convertAPIParamsToClickHouseParams ::
  "APIMetricQueryParams \<Rightarrow> string \<Rightarrow> string \<Rightarrow> string \<Rightarrow> MetricQueryParams" where
  "convertAPIParamsToClickHouseParams apiParams org proj env =
     \<lparr>startTime = startTime apiParams,
      endTime = endTime apiParams,
      granularity = granularity apiParams,
      filters = filters apiParams,
      groupBy = groupBy apiParams,
      rollup = rollup apiParams,
      organizationId = org,
      projectId = proj,
      environmentId = env\<rparr>"

text \<open>
  The ClickHouse client handed to the service is not part of the sources; it is a
  parameter: its \<^verbatim>\<open>metrics.createQuery\<close> and the \<^verbatim>\<open>execute\<close> of the queries it
  returns, which yields the pair of an error (here its message) and a result.
\<close>

record 'r ClickHouse =
  createQuery :: "MetricQueryParams \<Rightarrow> metricType option \<Rightarrow> error + builder"
  execute :: "builder \<Rightarrow> string option \<times> 'r option"

datatype event = CreateQuery MetricQueryParams "metricType option" | Execute builder

text \<open>
  \<^verbatim>\<open>MetricsService.getDynamicMetrics\<close>, returning the calls made on the client next to
  the outcome: a rejected promise is \<open>Inl\<close>.
\<close>

definition getDynamicMetrics ::
  "'r ClickHouse \<Rightarrow> APIMetricQueryParams \<Rightarrow> string \<Rightarrow> string \<Rightarrow> string
     \<Rightarrow> event list \<times> (error + 'r option)" where
  "getDynamicMetrics clickhouse params org proj env =
     (if rollup params = None
      then ([], Inl (Error ''rollup parameter is required for dynamic metrics''))
      else
        let clickhouseParams = convertAPIParamsToClickHouseParams params org proj env
        in (case createQuery clickhouse clickhouseParams None of
              Inl e \<Rightarrow> ([CreateQuery clickhouseParams None], Inl e)
            | Inr query \<Rightarrow>
                (case execute clickhouse query of
                   (Some message, result) \<Rightarrow>
                     ([CreateQuery clickhouseParams None, Execute query],
                      Inl (Error (''Failed to fetch dynamic metrics: '' @ message)))
                 | (None, result) \<Rightarrow>
                     ([CreateQuery clickhouseParams None, Execute query], Inr result))))"

text \<open>The client whose \<^verbatim>\<open>createQuery\<close> is \<^verbatim>\<open>createMetricsQuery\<close>.\<close>

definition metrics_client :: "(builder \<Rightarrow> string option \<times> 'r option) \<Rightarrow> 'r ClickHouse" where
  "metrics_client run =
     \<lparr>createQuery = (\<lambda>params metricType. createMetricsQuery params metricType None),
      execute = run\<rparr>"

section \<open>The metrics resource route\<close>














section \<open>Concrete inputs\<close>

text \<open>The complex query of the usage examples: every optional field is set.\<close>

definition full_params :: MetricQueryParams where
  "full_params =
     example_params
       \<lparr>endTime := Some (TimeNumber 1700003600),
        filters := Some \<lparr>task_identifier = Some ''my-task'',
                         status = Some ''COMPLETED_SUCCESSFULLY'',
                         queue = Some ''task/important-queue''\<rparr>,
        groupBy := Some ''status'',
        rollup := Some \<lparr>type = Ravg, column = ''usage_duration_ms''\<rparr>\<rparr>"

definition full_builder :: builder where
  "full_builder =
     \<lparr>name = ''getDynamicMetrics_avg_usage_duration_ms_15m'',
      baseQuery =
        nl @ ''      SELECT'' @ nl
           @ ''        toStartOfMinute(toDateTime(created_at)) as timestamp,'' @ nl
           @ ''        avg(usage_duration_ms) as value'' @ nl
           @ ''      FROM trigger_dev.task_runs_v2 FINAL'' @ nl
           @ ''    '',
      settings = None,
      clauses =
        [Where ''organization_id = {organizationId:String}''
           [(''organizationId'', PString ''org_123'')],
         Where ''project_id = {projectId:String}'' [(''projectId'', PString ''proj_456'')],
         Where ''environment_id = {environmentId:String}''
           [(''environmentId'', PString ''env_789'')],
         Where ''_is_deleted = 0'' [],
         Where ''created_at >= toUnixTimestamp({startTime:DateTime64})''
           [(''startTime'', PTime (TimeNumber 1700000000))],
         Where ''created_at <= toUnixTimestamp({endTime:DateTime64})''
           [(''endTime'', PTime (TimeNumber 1700003600))],
         Where ''task_identifier = {taskIdentifier:String}''
           [(''taskIdentifier'', PString ''my-task'')],
         Where ''status = {status:String}'' [(''status'', PString ''COMPLETED_SUCCESSFULLY'')],
         Where ''queue = {queue:String}'' [(''queue'', PString ''task/important-queue'')],
         GroupBy ''status'',
         OrderBy ''timestamp ASC'']\<rparr>"

text \<open>The end-to-end example: an average rollup at 15 minutes, no explicit group-by.\<close>

definition avg_params :: MetricQueryParams where
  "avg_params =
     example_params\<lparr>rollup := Some \<lparr>type = Ravg, column = ''usage_duration_ms''\<rparr>\<rparr>"

definition example_api_params :: APIMetricQueryParams where
  "example_api_params =
     \<lparr>startTime = TimeNumber 1700000000,
      endTime = None,
      granularity = ''15m'',
      filters = None,
      groupBy = None,
      rollup = None\<rparr>"


section \<open>The granularity grammar and its matcher\<close>

lemma granularity_match_Some:
  "ds \<noteq> [] \<Longrightarrow> \<forall>d \<in> set ds. is_digit d \<Longrightarrow> is_unit_letter u \<Longrightarrow>
     granularity_match (ds @ [u]) = Some (ds, u)"
  by (simp add: granularity_match_def list_all_iff)

text \<open>The matcher of the code accepts exactly the strings of the grammar.\<close>

lemma granularity_match_iff: "granularity_match g \<noteq> None \<longleftrightarrow> matches_grammar g"
proof
  assume m: "granularity_match g \<noteq> None"
  then have ne: "g \<noteq> []"
    by (auto simp: granularity_match_def)
  from m ne have "butlast g \<noteq> [] \<and> list_all is_digit (butlast g) \<and> is_unit_letter (last g)"
    by (auto simp: granularity_match_def split: if_splits)
  moreover from ne have "g = butlast g @ [last g]"
    by simp
  ultimately show "matches_grammar g"
    unfolding matches_grammar_def list_all_iff by blast
next
  assume "matches_grammar g"
  then obtain ds u where "g = ds @ [u]" "ds \<noteq> []" "\<forall>d \<in> set ds. is_digit d" "is_unit_letter u"
    unfolding matches_grammar_def by blast
  then show "granularity_match g \<noteq> None"
    by (simp add: granularity_match_Some)
qed

lemma granularity_match_None: "\<not> matches_grammar g \<Longrightarrow> granularity_match g = None"
  using granularity_match_iff [of g] by blast

lemmas eval_grammar = granularity_match_def is_digit_def is_unit_letter_def

lemma not_grammar_five_minutes: "\<not> matches_grammar ''five minutes''"
  using granularity_match_iff [of "''five minutes''"] by (simp add: eval_grammar)

lemma grammar_15m: "matches_grammar ''15m''"
  using granularity_match_iff [of "''15m''"] by (simp add: eval_grammar)

lemma grammar_1m: "matches_grammar ''1m''"
  using granularity_match_iff [of "''1m''"] by (simp add: eval_grammar)

section \<open>The clauses of a composed query\<close>

lemma select_queryBuilder_clauses:
  "select_queryBuilder p mt cm = Inr q \<Longrightarrow> clauses q = []"
  by (auto simp: select_queryBuilder_def getDynamicMetricsQueryBuilder_def
      getTaskRunCountMetrics_def getTaskRunDurationMetrics_def getTaskRunCostMetrics_def
      getTaskRunStatusMetrics_def getCustomMetrics_def ch_queryBuilder_def Let_def
      split: option.splits metricType.splits)

lemma select_queryBuilder_rollup:
  "rollup p = Some r \<Longrightarrow>
     select_queryBuilder p mt cm =
       Inr (getDynamicMetricsQueryBuilder (granularity p) (type r) (column r) None)"
  by (simp add: select_queryBuilder_def)

lemma clauses_add_standard_filters:
  "clauses (add_standard_filters p b) = clauses b @
     [Where ''organization_id = {organizationId:String}''
        [(''organizationId'', PString (organizationId p))],
      Where ''project_id = {projectId:String}'' [(''projectId'', PString (projectId p))],
      Where ''environment_id = {environmentId:String}''
        [(''environmentId'', PString (environmentId p))],
      Where ''_is_deleted = 0'' [],
      Where ''created_at >= toUnixTimestamp({startTime:DateTime64})''
        [(''startTime'', PTime (startTime p))]]"
  by (simp add: add_standard_filters_def b_where_def)

lemma clauses_add_endTime_filter:
  "clauses (add_endTime_filter p b) = clauses b @
     when_truthy (endTime p) truthy_time
       (\<lambda>t. Where ''created_at <= toUnixTimestamp({endTime:DateTime64})''
              [(''endTime'', PTime t)])"
  by (simp add: add_endTime_filter_def when_truthy_def b_where_def split: option.splits)

lemma clauses_add_optional_filters:
  "clauses (add_optional_filters p b) = clauses b @
     when_truthy (Option.bind (filters p) task_identifier) truthy_string
       (\<lambda>v. Where ''task_identifier = {taskIdentifier:String}''
              [(''taskIdentifier'', PString v)]) @
     when_truthy (Option.bind (filters p) status) truthy_string
       (\<lambda>v. Where ''status = {status:String}'' [(''status'', PString v)]) @
     when_truthy (Option.bind (filters p) queue) truthy_string
       (\<lambda>v. Where ''queue = {queue:String}'' [(''queue'', PString v)])"
  by (simp add: add_optional_filters_def when_truthy_def b_where_def Let_def
      split: option.splits)

lemma clauses_add_grouping:
  "clauses (add_grouping p b) = clauses b @ grouping_clauses p"
  by (simp add: add_grouping_def grouping_clauses_def b_groupBy_def split: option.splits)

lemma createMetricsQuery_Inr:
  "createMetricsQuery p mt cm = Inr b \<Longrightarrow>
     \<exists>q. select_queryBuilder p mt cm = Inr q \<and>
       b = b_orderBy ''timestamp ASC''
             (add_grouping p (add_optional_filters p
               (add_endTime_filter p (add_standard_filters p q))))"
  by (auto simp: createMetricsQuery_def split: sum.splits)

lemma createMetricsQuery_clauses:
  assumes "createMetricsQuery p mt cm = Inr b"
  shows "clauses b =
     [Where ''organization_id = {organizationId:String}''
        [(''organizationId'', PString (organizationId p))],
      Where ''project_id = {projectId:String}'' [(''projectId'', PString (projectId p))],
      Where ''environment_id = {environmentId:String}''
        [(''environmentId'', PString (environmentId p))],
      Where ''_is_deleted = 0'' [],
      Where ''created_at >= toUnixTimestamp({startTime:DateTime64})''
        [(''startTime'', PTime (startTime p))]] @
     when_truthy (endTime p) truthy_time
       (\<lambda>t. Where ''created_at <= toUnixTimestamp({endTime:DateTime64})''
              [(''endTime'', PTime t)]) @
     when_truthy (Option.bind (filters p) task_identifier) truthy_string
       (\<lambda>v. Where ''task_identifier = {taskIdentifier:String}''
              [(''taskIdentifier'', PString v)]) @
     when_truthy (Option.bind (filters p) status) truthy_string
       (\<lambda>v. Where ''status = {status:String}'' [(''status'', PString v)]) @
     when_truthy (Option.bind (filters p) queue) truthy_string
       (\<lambda>v. Where ''queue = {queue:String}'' [(''queue'', PString v)]) @
     grouping_clauses p @
     [OrderBy ''timestamp ASC'']"
proof -
  from assms obtain q where q: "select_queryBuilder p mt cm = Inr q"
    and b: "b = b_orderBy ''timestamp ASC''
             (add_grouping p (add_optional_filters p
               (add_endTime_filter p (add_standard_filters p q))))"
    using createMetricsQuery_Inr by blast
  have "clauses q = []"
    using q by (rule select_queryBuilder_clauses)
  then show ?thesis
    unfolding b
    by (simp add: b_orderBy_def clauses_add_grouping clauses_add_optional_filters
        clauses_add_endTime_filter clauses_add_standard_filters)
qed

lemma grouping_clauses_groupBy: "c \<in> set (grouping_clauses p) \<Longrightarrow> is_groupBy c"
  by (auto simp: grouping_clauses_def split: option.splits if_splits)

lemma grouping_clauses_length: "length (grouping_clauses p) \<le> 1"
  by (simp add: grouping_clauses_def split: option.splits)

lemma filter_when_truthy_Where:
  "filter is_groupBy (when_truthy v t (\<lambda>x. Where (w x) (ps x))) = []"
  by (simp add: when_truthy_def split: option.splits)

lemma filter_grouping_clauses: "filter is_groupBy (grouping_clauses p) = grouping_clauses p"
  by (simp add: grouping_clauses_def split: option.splits)

text \<open>The group-by calls a composed query has received are those of the grouping step.\<close>

lemma createMetricsQuery_groupBy_clauses:
  assumes "createMetricsQuery p mt cm = Inr b"
  shows "filter is_groupBy (clauses b) = grouping_clauses p"
  unfolding createMetricsQuery_clauses [OF assms]
  by (simp add: filter_when_truthy_Where filter_grouping_clauses)

lemma createMetricsQuery_last_clause:
  assumes "createMetricsQuery p mt cm = Inr b"
  shows "last (clauses b) = OrderBy ''timestamp ASC''"
  unfolding createMetricsQuery_clauses [OF assms] by simp

lemma no_groupBy_iff: "\<not> list_ex is_groupBy cs \<longleftrightarrow> filter is_groupBy cs = []"
  by (simp add: list_ex_iff filter_empty_conv)

lemma default_grouping_mem:
  "GroupBy ''task_identifier'' \<in> set (grouping_clauses p)
     \<longleftrightarrow> rollup p = None \<and> (groupBy p = None \<or> groupBy p = Some [])"
proof (cases "groupBy p")
  case None
  then show ?thesis by (simp add: grouping_clauses_def)
next
  case (Some g)
  show ?thesis
  proof (cases "g = []")
    case True
    with Some show ?thesis by (simp add: grouping_clauses_def truthy_string_def)
  next
    case False
    with Some show ?thesis by (simp add: grouping_clauses_def truthy_string_def)
  qed
qed

section \<open>The base query of a composed query\<close>

lemma baseQuery_b_where: "baseQuery (b_where t ps b) = baseQuery b"
  by (simp add: b_where_def)

lemma baseQuery_add_standard_filters: "baseQuery (add_standard_filters p b) = baseQuery b"
  by (simp add: add_standard_filters_def baseQuery_b_where)

lemma baseQuery_add_endTime_filter: "baseQuery (add_endTime_filter p b) = baseQuery b"
  by (simp add: add_endTime_filter_def baseQuery_b_where split: option.splits)

lemma baseQuery_add_optional_filters: "baseQuery (add_optional_filters p b) = baseQuery b"
  by (simp add: add_optional_filters_def baseQuery_b_where Let_def split: option.splits)

lemma baseQuery_add_grouping: "baseQuery (add_grouping p b) = baseQuery b"
  by (simp add: add_grouping_def b_groupBy_def split: option.splits)

lemma createMetricsQuery_baseQuery:
  "createMetricsQuery p mt cm = Inr b \<Longrightarrow> select_queryBuilder p mt cm = Inr q \<Longrightarrow>
     baseQuery b = baseQuery q"
  by (auto simp: createMetricsQuery_def b_orderBy_def baseQuery_add_grouping
      baseQuery_add_optional_filters baseQuery_add_endTime_filter
      baseQuery_add_standard_filters)

text \<open>With a rollup in the parameters the composition cannot fail.\<close>

lemma createMetricsQuery_rollup_succeeds:
  assumes "rollup p = Some r"
  shows "\<exists>b. createMetricsQuery p mt cm = Inr b \<and>
       baseQuery b =
         baseQuery (getDynamicMetricsQueryBuilder (granularity p) (type r) (column r) None)"
proof -
  have q: "select_queryBuilder p mt cm =
       Inr (getDynamicMetricsQueryBuilder (granularity p) (type r) (column r) None)"
    using assms by (rule select_queryBuilder_rollup)
  then obtain b where b: "createMetricsQuery p mt cm = Inr b"
    by (simp add: createMetricsQuery_def)
  from createMetricsQuery_baseQuery [OF b q] b show ?thesis
    by blast
qed

section \<open>Evaluation of concrete queries\<close>

lemmas eval_query = createMetricsQuery_def select_queryBuilder_def example_params_def
  getDynamicMetricsQueryBuilder_def getTaskRunCountMetrics_def ch_queryBuilder_def
  add_standard_filters_def add_endTime_filter_def add_optional_filters_def
  add_grouping_def b_where_def b_groupBy_def b_orderBy_def Let_def truthy_string_def
  getTimeBucketFunction_def

lemma full_params_query: "createMetricsQuery full_params None None = Inr full_builder"
  by (simp add: full_params_def full_builder_def eval_query eval_grammar)

section \<open>Granularity and time buckets\<close>

text \<open>
  C1, as stated, fails: a granularity outside the grammar does not make the construction
  of a metrics query fail. For the granularity \<open>five minutes\<close>, which is not in the
  grammar, \<^verbatim>\<open>createMetricsQuery\<close> with a rollup returns a query whose time bucket is
  the minute truncation.
\<close>

theorem invalid_granularity_counterexample:
  "\<not> matches_grammar ''five minutes''
   \<and> createMetricsQuery
        (example_params\<lparr>granularity := ''five minutes'',
                        rollup := Some \<lparr>type = Rcount, column = ''*''\<rparr>\<rparr>) None None
     = Inr \<lparr>name = ''getDynamicMetrics_count_*_five minutes'',
            baseQuery =
              nl @ ''      SELECT'' @ nl
                 @ ''        toStartOfMinute(toDateTime(created_at)) as timestamp,'' @ nl
                 @ ''        count() as value'' @ nl
                 @ ''      FROM trigger_dev.task_runs_v2 FINAL'' @ nl
                 @ ''    '',
            settings = None,
            clauses =
              [Where ''organization_id = {organizationId:String}''
                 [(''organizationId'', PString ''org_123'')],
               Where ''project_id = {projectId:String}'' [(''projectId'', PString ''proj_456'')],
               Where ''environment_id = {environmentId:String}''
                 [(''environmentId'', PString ''env_789'')],
               Where ''_is_deleted = 0'' [],
               Where ''created_at >= toUnixTimestamp({startTime:DateTime64})''
                 [(''startTime'', PTime (TimeNumber 1700000000))],
               OrderBy ''timestamp ASC'']\<rparr>"
  using not_grammar_five_minutes by (simp add: eval_query eval_grammar)

text \<open>
  C1, amended: for every granularity string outside the grammar,
  \<^verbatim>\<open>granularityToInterval\<close> fails with the invalid-granularity error, whereas the
  construction of a query does not fail: \<^verbatim>\<open>getTimeBucketFunction\<close> falls back to the
  minute truncation, the dynamic query builder has the base query it has for \<open>1m\<close>,
  and \<^verbatim>\<open>createMetricsQuery\<close> with a rollup returns a query.
\<close>

theorem invalid_granularity_falls_back:
  assumes "\<not> matches_grammar g"
  shows \<open>granularityToInterval g =
           Inl (Error (''Invalid granularity format: '' @ g
                         @ ''. Expected format like "1m", "5m", "1h", "1d"''))
         \<and> getTimeBucketFunction g = ''toStartOfMinute(toDateTime(created_at))''
         \<and> baseQuery (getDynamicMetricsQueryBuilder g t c s)
             = baseQuery (getDynamicMetricsQueryBuilder ''1m'' t c s)
         \<and> (rollup p = Some r \<and> granularity p = g \<longrightarrow> \<not> isl (createMetricsQuery p mt cm))\<close>
proof -
  have none: "granularity_match g = None"
    using assms by (rule granularity_match_None)
  have m1: "granularity_match ''1m'' = Some (''1'', CHR ''m'')"
    by (simp add: eval_grammar)
  have a: \<open>granularityToInterval g =
           Inl (Error (''Invalid granularity format: '' @ g
                         @ ''. Expected format like "1m", "5m", "1h", "1d"''))\<close>
    by (simp add: granularityToInterval_def none)
  have b: "getTimeBucketFunction g = ''toStartOfMinute(toDateTime(created_at))''"
    by (simp add: getTimeBucketFunction_def none)
  have b1: "getTimeBucketFunction ''1m'' = ''toStartOfMinute(toDateTime(created_at))''"
    by (simp add: getTimeBucketFunction_def m1)
  have c: "baseQuery (getDynamicMetricsQueryBuilder g t c s)
             = baseQuery (getDynamicMetricsQueryBuilder ''1m'' t c s)"
    by (simp add: getDynamicMetricsQueryBuilder_def ch_queryBuilder_def Let_def b b1)
  have d: "rollup p = Some r \<and> granularity p = g \<longrightarrow> \<not> isl (createMetricsQuery p mt cm)"
    by (simp add: createMetricsQuery_def select_queryBuilder_rollup)
  from a b c d show ?thesis by blast
qed

text \<open>C1, amended, at the granularity \<open>five minutes\<close> with a count rollup.\<close>

theorem invalid_granularity_falls_back_witness:
  \<open>\<not> matches_grammar ''five minutes''
   \<and> granularityToInterval ''five minutes'' =
       Inl (Error ''Invalid granularity format: five minutes. Expected format like "1m", "5m", "1h", "1d"'')
   \<and> getTimeBucketFunction ''five minutes'' = ''toStartOfMinute(toDateTime(created_at))''
   \<and> \<not> isl (createMetricsQuery
               (example_params\<lparr>granularity := ''five minutes'',
                               rollup := Some \<lparr>type = Rcount, column = ''*''\<rparr>\<rparr>) None None)\<close>
  using invalid_granularity_falls_back [OF not_grammar_five_minutes,
      where p = "example_params\<lparr>granularity := ''five minutes'',
                                rollup := Some \<lparr>type = Rcount, column = ''*''\<rparr>\<rparr>"
        and r = "\<lparr>type = Rcount, column = ''*''\<rparr>" and mt = None and cm = None
        and t = Rcount and c = "''*''" and s = None]
    not_grammar_five_minutes
  by (simp add: example_params_def)

text \<open>
  C2: for every granularity string of the grammar the time bucket is decided by the unit
  letter, the last character, alone: \<open>s\<close> and \<open>m\<close> give the minute truncation, \<open>h\<close> the
  hour truncation and \<open>d\<close> the day; two strings of the grammar with the same unit letter
  have the same bucket, whatever their amounts.
\<close>

theorem bucket_is_function_of_unit:
  assumes "matches_grammar g"
  shows "getTimeBucketFunction g =
           (if last g = CHR ''s'' \<or> last g = CHR ''m''
            then ''toStartOfMinute(toDateTime(created_at))''
            else if last g = CHR ''h'' then ''toStartOfHour(toDateTime(created_at))''
            else ''toDate(toDateTime(created_at))'')
         \<and> (\<forall>g'. matches_grammar g' \<and> last g' = last g
                \<longrightarrow> getTimeBucketFunction g' = getTimeBucketFunction g)"
proof -
  have bucket: "getTimeBucketFunction h =
           (if last h = CHR ''s'' \<or> last h = CHR ''m''
            then ''toStartOfMinute(toDateTime(created_at))''
            else if last h = CHR ''h'' then ''toStartOfHour(toDateTime(created_at))''
            else ''toDate(toDateTime(created_at))'')" if "matches_grammar h" for h
  proof -
    from that obtain ds u where h: "h = ds @ [u]" and ds: "ds \<noteq> []" "\<forall>d \<in> set ds. is_digit d"
      and u: "is_unit_letter u"
      unfolding matches_grammar_def by blast
    have "granularity_match h = Some (ds, u)"
      unfolding h using ds u by (rule granularity_match_Some)
    moreover from u have "u = CHR ''s'' \<or> u = CHR ''m'' \<or> u = CHR ''h'' \<or> u = CHR ''d''"
      by (auto simp: is_unit_letter_def)
    ultimately show ?thesis
      by (auto simp: getTimeBucketFunction_def h)
  qed
  show ?thesis
    using bucket [OF assms] bucket by simp
qed

text \<open>C2 at \<open>15m\<close>, compared with \<open>1m\<close>.\<close>

theorem bucket_is_function_of_unit_witness:
  "matches_grammar ''15m'' \<and> matches_grammar ''1m''
   \<and> getTimeBucketFunction ''15m'' = ''toStartOfMinute(toDateTime(created_at))''
   \<and> getTimeBucketFunction ''1m'' = getTimeBucketFunction ''15m''"
  using bucket_is_function_of_unit [OF grammar_15m] grammar_15m grammar_1m by simp

section \<open>Aggregation expressions\<close>

text \<open>
  C3: \<^verbatim>\<open>buildAggregationExpression\<close> maps a count over \<open>*\<close> to \<open>count()\<close>, a count over
  any other column \<open>c\<close> to \<open>count(c)\<close>, sum, avg, min and max to the aggregate of the same
  name over \<open>c\<close>, and distinct to \<open>uniq(c)\<close>.
\<close>

theorem buildAggregationExpression_table:
  "buildAggregationExpression Rcount ''*'' = ''count()''
   \<and> (c \<noteq> ''*'' \<longrightarrow> buildAggregationExpression Rcount c = ''count('' @ c @ '')'')
   \<and> buildAggregationExpression Rsum c = ''sum('' @ c @ '')''
   \<and> buildAggregationExpression Ravg c = ''avg('' @ c @ '')''
   \<and> buildAggregationExpression Rmin c = ''min('' @ c @ '')''
   \<and> buildAggregationExpression Rmax c = ''max('' @ c @ '')''
   \<and> buildAggregationExpression Rdistinct c = ''uniq('' @ c @ '')''"
  by simp

text \<open>C3 at the column \<open>run_id\<close>.\<close>

theorem buildAggregationExpression_table_witness:
  "''run_id'' \<noteq> ''*''
   \<and> buildAggregationExpression Rcount ''run_id'' = ''count(run_id)''
   \<and> buildAggregationExpression Rdistinct ''run_id'' = ''uniq(run_id)''"
  using buildAggregationExpression_table [of "''run_id''"] by simp

section \<open>The composed query\<close>

text \<open>
  C4, as stated, fails in one place: an end time that is present does not always give an
  end-time filter. With the end time \<open>0\<close> (a number, the epoch) the query has no
  end-time filter, because the code tests the field for truthiness.
\<close>

theorem endTime_zero_counterexample:
  "endTime (example_params\<lparr>endTime := Some (TimeNumber 0)\<rparr>) = Some (TimeNumber 0)
   \<and> map_sum id clauses
        (createMetricsQuery (example_params\<lparr>endTime := Some (TimeNumber 0)\<rparr>)
           (Some MCount) None)
     = Inr [Where ''organization_id = {organizationId:String}''
              [(''organizationId'', PString ''org_123'')],
            Where ''project_id = {projectId:String}'' [(''projectId'', PString ''proj_456'')],
            Where ''environment_id = {environmentId:String}''
              [(''environmentId'', PString ''env_789'')],
            Where ''_is_deleted = 0'' [],
            Where ''created_at >= toUnixTimestamp({startTime:DateTime64})''
              [(''startTime'', PTime (TimeNumber 1700000000))],
            GroupBy ''task_identifier'',
            OrderBy ''timestamp ASC'']"
  by (simp add: eval_query)

text \<open>
  C4, amended: whenever \<^verbatim>\<open>createMetricsQuery\<close> returns a query, the calls that query has
  received are, in this order: the organization, project and environment filters, the
  soft-delete filter, the start-time filter, the end-time filter when the end time is
  defined and truthy (a non-empty string or a number other than zero), the
  task-identifier, status and queue filters, each when its value is defined and
  non-empty, at most one group-by, and the ascending timestamp ordering. The sequence
  is a function of the parameters alone, so identical parameters give the same sequence.
\<close>

theorem createMetricsQuery_clause_order:
  assumes "createMetricsQuery p mt cm = Inr b"
  shows "clauses b =
     [Where ''organization_id = {organizationId:String}''
        [(''organizationId'', PString (organizationId p))],
      Where ''project_id = {projectId:String}'' [(''projectId'', PString (projectId p))],
      Where ''environment_id = {environmentId:String}''
        [(''environmentId'', PString (environmentId p))],
      Where ''_is_deleted = 0'' [],
      Where ''created_at >= toUnixTimestamp({startTime:DateTime64})''
        [(''startTime'', PTime (startTime p))]] @
     when_truthy (endTime p) truthy_time
       (\<lambda>t. Where ''created_at <= toUnixTimestamp({endTime:DateTime64})''
              [(''endTime'', PTime t)]) @
     when_truthy (Option.bind (filters p) task_identifier) truthy_string
       (\<lambda>v. Where ''task_identifier = {taskIdentifier:String}''
              [(''taskIdentifier'', PString v)]) @
     when_truthy (Option.bind (filters p) status) truthy_string
       (\<lambda>v. Where ''status = {status:String}'' [(''status'', PString v)]) @
     when_truthy (Option.bind (filters p) queue) truthy_string
       (\<lambda>v. Where ''queue = {queue:String}'' [(''queue'', PString v)]) @
     grouping_clauses p @
     [OrderBy ''timestamp ASC'']
   \<and> length (grouping_clauses p) \<le> 1
   \<and> (\<forall>c \<in> set (grouping_clauses p). is_groupBy c)"
  using createMetricsQuery_clauses [OF assms] grouping_clauses_length [of p]
    grouping_clauses_groupBy [of _ p]
  by blast

text \<open>C4, amended, at the complex query of the usage examples.\<close>

theorem createMetricsQuery_clause_order_witness:
  "createMetricsQuery full_params None None = Inr full_builder
   \<and> clauses full_builder =
       [Where ''organization_id = {organizationId:String}''
          [(''organizationId'', PString ''org_123'')],
        Where ''project_id = {projectId:String}'' [(''projectId'', PString ''proj_456'')],
        Where ''environment_id = {environmentId:String}''
          [(''environmentId'', PString ''env_789'')],
        Where ''_is_deleted = 0'' [],
        Where ''created_at >= toUnixTimestamp({startTime:DateTime64})''
          [(''startTime'', PTime (TimeNumber 1700000000))],
        Where ''created_at <= toUnixTimestamp({endTime:DateTime64})''
          [(''endTime'', PTime (TimeNumber 1700003600))],
        Where ''task_identifier = {taskIdentifier:String}''
          [(''taskIdentifier'', PString ''my-task'')],
        Where ''status = {status:String}'' [(''status'', PString ''COMPLETED_SUCCESSFULLY'')],
        Where ''queue = {queue:String}'' [(''queue'', PString ''task/important-queue'')],
        GroupBy ''status'',
        OrderBy ''timestamp ASC'']"
  using createMetricsQuery_clause_order [OF full_params_query] full_params_query
  by (simp add: full_params_def example_params_def when_truthy_def grouping_clauses_def
      truthy_string_def)

text \<open>
  C5, as stated, fails: with no rollup and the explicit group-by \<open>''''\<close> (the empty
  string) the default grouping by \<open>task_identifier\<close> is added all the same, because the
  code tests the group-by for truthiness.
\<close>

theorem empty_groupBy_counterexample:
  "groupBy (example_params\<lparr>groupBy := Some ''''\<rparr>) = Some ''''
   \<and> rollup (example_params\<lparr>groupBy := Some ''''\<rparr>) = None
   \<and> map_sum id clauses
        (createMetricsQuery (example_params\<lparr>groupBy := Some ''''\<rparr>) (Some MCount) None)
     = Inr [Where ''organization_id = {organizationId:String}''
              [(''organizationId'', PString ''org_123'')],
            Where ''project_id = {projectId:String}'' [(''projectId'', PString ''proj_456'')],
            Where ''environment_id = {environmentId:String}''
              [(''environmentId'', PString ''env_789'')],
            Where ''_is_deleted = 0'' [],
            Where ''created_at >= toUnixTimestamp({startTime:DateTime64})''
              [(''startTime'', PTime (TimeNumber 1700000000))],
            GroupBy ''task_identifier'',
            OrderBy ''timestamp ASC'']"
  by (simp add: eval_query)

text \<open>
  C5, amended: a query returned by \<^verbatim>\<open>createMetricsQuery\<close> has the default grouping by
  \<open>task_identifier\<close> exactly when the parameters have no rollup and their group-by is
  absent or the empty string; and for parameters with the rollup avg over
  \<open>usage_duration_ms\<close>, the granularity \<open>15m\<close> and no group-by, a query is returned that
  has no group-by and ends with the ascending timestamp ordering.
\<close>

theorem default_grouping_iff:
  "(createMetricsQuery p mt cm = Inr b \<longrightarrow>
      (GroupBy ''task_identifier'' \<in> set (clauses b)
         \<longleftrightarrow> rollup p = None \<and> (groupBy p = None \<or> groupBy p = Some [])))
   \<and> (rollup p = Some \<lparr>type = Ravg, column = ''usage_duration_ms''\<rparr>
        \<and> granularity p = ''15m'' \<and> groupBy p = None
      \<longrightarrow> (\<exists>b'. createMetricsQuery p mt cm = Inr b'
                 \<and> \<not> list_ex is_groupBy (clauses b')
                 \<and> last (clauses b') = OrderBy ''timestamp ASC''))"
proof (intro conjI impI)
  assume ok: "createMetricsQuery p mt cm = Inr b"
  have "GroupBy ''task_identifier'' \<in> set (clauses b)
          \<longleftrightarrow> GroupBy ''task_identifier'' \<in> set (filter is_groupBy (clauses b))"
    by simp
  also have "\<dots> \<longleftrightarrow> GroupBy ''task_identifier'' \<in> set (grouping_clauses p)"
    by (simp only: createMetricsQuery_groupBy_clauses [OF ok])
  finally show "GroupBy ''task_identifier'' \<in> set (clauses b)
          \<longleftrightarrow> rollup p = None \<and> (groupBy p = None \<or> groupBy p = Some [])"
    by (simp only: default_grouping_mem)
next
  assume a: "rollup p = Some \<lparr>type = Ravg, column = ''usage_duration_ms''\<rparr>
        \<and> granularity p = ''15m'' \<and> groupBy p = None"
  then obtain b' where ok: "createMetricsQuery p mt cm = Inr b'"
    using createMetricsQuery_rollup_succeeds [of p _ mt cm] by blast
  from a have g: "grouping_clauses p = []"
    by (simp add: grouping_clauses_def)
  have "\<not> list_ex is_groupBy (clauses b')"
    unfolding no_groupBy_iff createMetricsQuery_groupBy_clauses [OF ok] by (rule g)
  moreover have "last (clauses b') = OrderBy ''timestamp ASC''"
    using ok by (rule createMetricsQuery_last_clause)
  ultimately show "\<exists>b'. createMetricsQuery p mt cm = Inr b'
                 \<and> \<not> list_ex is_groupBy (clauses b')
                 \<and> last (clauses b') = OrderBy ''timestamp ASC''"
    using ok by blast
qed

text \<open>
  C5, amended, at the end-to-end example (no default grouping) and at the same
  parameters without the rollup, for the count metric (default grouping).
\<close>

theorem default_grouping_iff_witness:
  "createMetricsQuery avg_params None None
     = Inr (projr (createMetricsQuery avg_params None None))
   \<and> GroupBy ''task_identifier''
        \<notin> set (clauses (projr (createMetricsQuery avg_params None None)))
   \<and> rollup avg_params = Some \<lparr>type = Ravg, column = ''usage_duration_ms''\<rparr>
   \<and> granularity avg_params = ''15m'' \<and> groupBy avg_params = None
   \<and> (\<exists>b'. createMetricsQuery avg_params None None = Inr b'
          \<and> \<not> list_ex is_groupBy (clauses b')
          \<and> last (clauses b') = OrderBy ''timestamp ASC'')
   \<and> createMetricsQuery example_params (Some MCount) None
       = Inr (projr (createMetricsQuery example_params (Some MCount) None))
   \<and> GroupBy ''task_identifier''
        \<in> set (clauses (projr (createMetricsQuery example_params (Some MCount) None)))"
proof -
  have a: "createMetricsQuery avg_params None None
             = Inr (projr (createMetricsQuery avg_params None None))"
    by (simp add: createMetricsQuery_def select_queryBuilder_def avg_params_def
        example_params_def)
  have c: "createMetricsQuery example_params (Some MCount) None
             = Inr (projr (createMetricsQuery example_params (Some MCount) None))"
    by (simp add: createMetricsQuery_def select_queryBuilder_def example_params_def)
  have r: "rollup avg_params = Some \<lparr>type = Ravg, column = ''usage_duration_ms''\<rparr>
             \<and> granularity avg_params = ''15m'' \<and> groupBy avg_params = None"
    "rollup example_params = None \<and> groupBy example_params = None"
    by (simp_all add: avg_params_def example_params_def)
  show ?thesis
    using default_grouping_iff [of avg_params None None
        "projr (createMetricsQuery avg_params None None)"]
      default_grouping_iff [of example_params "Some MCount" None
        "projr (createMetricsQuery example_params (Some MCount) None)"]
      a c r
    by simp
qed

text \<open>
  C9: when the group-by of the parameters is the string \<open>task_identifier\<close>, a query
  returned by \<^verbatim>\<open>createMetricsQuery\<close> has received no group-by call at all, whether or
  not a rollup is present.
\<close>

theorem explicit_task_identifier_groupBy_dropped:
  assumes "groupBy p = Some ''task_identifier''"
    and "createMetricsQuery p mt cm = Inr b"
  shows "\<not> list_ex is_groupBy (clauses b)"
proof -
  from assms(1) have "grouping_clauses p = []"
    by (simp add: grouping_clauses_def truthy_string_def)
  then show ?thesis
    unfolding no_groupBy_iff createMetricsQuery_groupBy_clauses [OF assms(2)] .
qed

text \<open>
  C9 with a rollup (the end-to-end example, grouped by \<open>task_identifier\<close>) and without
  one (the count metric).
\<close>

theorem explicit_task_identifier_groupBy_dropped_witness:
  "groupBy (avg_params\<lparr>groupBy := Some ''task_identifier''\<rparr>) = Some ''task_identifier''
   \<and> rollup (avg_params\<lparr>groupBy := Some ''task_identifier''\<rparr>) \<noteq> None
   \<and> createMetricsQuery (avg_params\<lparr>groupBy := Some ''task_identifier''\<rparr>) None None
       = Inr (projr (createMetricsQuery
                       (avg_params\<lparr>groupBy := Some ''task_identifier''\<rparr>) None None))
   \<and> \<not> list_ex is_groupBy
         (clauses (projr (createMetricsQuery
                            (avg_params\<lparr>groupBy := Some ''task_identifier''\<rparr>) None None)))
   \<and> rollup (example_params\<lparr>groupBy := Some ''task_identifier''\<rparr>) = None
   \<and> createMetricsQuery (example_params\<lparr>groupBy := Some ''task_identifier''\<rparr>)
         (Some MCount) None
       = Inr (projr (createMetricsQuery
                       (example_params\<lparr>groupBy := Some ''task_identifier''\<rparr>)
                       (Some MCount) None))
   \<and> \<not> list_ex is_groupBy
         (clauses (projr (createMetricsQuery
                            (example_params\<lparr>groupBy := Some ''task_identifier''\<rparr>)
                            (Some MCount) None)))"
proof -
  have g: "groupBy (avg_params\<lparr>groupBy := Some ''task_identifier''\<rparr>) = Some ''task_identifier''"
    "groupBy (example_params\<lparr>groupBy := Some ''task_identifier''\<rparr>) = Some ''task_identifier''"
    by simp_all
  have r: "rollup (avg_params\<lparr>groupBy := Some ''task_identifier''\<rparr>) \<noteq> None"
    "rollup (example_params\<lparr>groupBy := Some ''task_identifier''\<rparr>) = None"
    by (simp_all add: avg_params_def example_params_def)
  have a: "createMetricsQuery (avg_params\<lparr>groupBy := Some ''task_identifier''\<rparr>) None None
       = Inr (projr (createMetricsQuery
                       (avg_params\<lparr>groupBy := Some ''task_identifier''\<rparr>) None None))"
    by (simp add: createMetricsQuery_def select_queryBuilder_def avg_params_def
        example_params_def)
  have c: "createMetricsQuery (example_params\<lparr>groupBy := Some ''task_identifier''\<rparr>)
         (Some MCount) None
       = Inr (projr (createMetricsQuery
                       (example_params\<lparr>groupBy := Some ''task_identifier''\<rparr>)
                       (Some MCount) None))"
    by (simp add: createMetricsQuery_def select_queryBuilder_def example_params_def)
  from explicit_task_identifier_groupBy_dropped [OF g(1) a]
    explicit_task_identifier_groupBy_dropped [OF g(2) c] g r a c
  show ?thesis by blast
qed

text \<open>
  C6, as stated, fails: a rollup whose column is the empty string is not rejected.
  \<^verbatim>\<open>createMetricsQuery\<close> returns a query for it, with the aggregation \<open>avg()\<close>.
\<close>

theorem empty_rollup_column_counterexample:
  "createMetricsQuery
     (example_params\<lparr>rollup := Some \<lparr>type = Ravg, column = ''''\<rparr>\<rparr>) None None
   = Inr \<lparr>name = ''getDynamicMetrics_avg__15m'',
          baseQuery =
            nl @ ''      SELECT'' @ nl
               @ ''        toStartOfMinute(toDateTime(created_at)) as timestamp,'' @ nl
               @ ''        avg() as value'' @ nl
               @ ''      FROM trigger_dev.task_runs_v2 FINAL'' @ nl
               @ ''    '',
          settings = None,
          clauses =
            [Where ''organization_id = {organizationId:String}''
               [(''organizationId'', PString ''org_123'')],
             Where ''project_id = {projectId:String}'' [(''projectId'', PString ''proj_456'')],
             Where ''environment_id = {environmentId:String}''
               [(''environmentId'', PString ''env_789'')],
             Where ''_is_deleted = 0'' [],
             Where ''created_at >= toUnixTimestamp({startTime:DateTime64})''
               [(''startTime'', PTime (TimeNumber 1700000000))],
             OrderBy ''timestamp ASC'']\<rparr>"
  by (simp add: eval_query eval_grammar)

text \<open>
  C6, amended: the rollup column is not validated. For all parameters with a rollup,
  whatever its column (the empty string included), \<^verbatim>\<open>createMetricsQuery\<close> returns a
  query, and the base query of that query is the one of the dynamic query builder for
  the column as given.
\<close>

theorem rollup_column_not_validated:
  assumes "rollup p = Some r"
  shows "\<not> isl (createMetricsQuery p mt cm)
         \<and> (\<exists>b. createMetricsQuery p mt cm = Inr b
                \<and> baseQuery b =
                    baseQuery (getDynamicMetricsQueryBuilder (granularity p) (type r)
                                 (column r) None))"
  using createMetricsQuery_rollup_succeeds [OF assms, of mt cm] by auto

text \<open>C6, amended, at a rollup with the empty column.\<close>

theorem rollup_column_not_validated_witness:
  "rollup (example_params\<lparr>rollup := Some \<lparr>type = Rsum, column = ''''\<rparr>\<rparr>)
     = Some \<lparr>type = Rsum, column = ''''\<rparr>
   \<and> \<not> isl (createMetricsQuery
               (example_params\<lparr>rollup := Some \<lparr>type = Rsum, column = ''''\<rparr>\<rparr>) None None)"
proof -
  have r: "rollup (example_params\<lparr>rollup := Some \<lparr>type = Rsum, column = ''''\<rparr>\<rparr>)
     = Some \<lparr>type = Rsum, column = ''''\<rparr>"
    by simp
  from rollup_column_not_validated [OF r, of None None] r show ?thesis
    by blast
qed

text \<open>
  C7: without a rollup and without a metric type \<^verbatim>\<open>createMetricsQuery\<close> throws, and
  \<^verbatim>\<open>MetricsService.getDynamicMetrics\<close> on parameters without a rollup throws before it
  has made any call on the ClickHouse client, whatever that client is.
\<close>

theorem missing_rollup_throws:
  "(rollup p = None \<longrightarrow>
      createMetricsQuery p None cm =
        Inl (Error ''Either metricType or rollup must be specified''))
   \<and> (rollup ap = None \<longrightarrow>
        getDynamicMetrics clickhouse ap org proj env =
          ([], Inl (Error ''rollup parameter is required for dynamic metrics'')))"
  by (simp add: createMetricsQuery_def select_queryBuilder_def getDynamicMetrics_def)

text \<open>C7 at the example parameters, which have no rollup.\<close>

theorem missing_rollup_throws_witness:
  "rollup example_params = None
   \<and> createMetricsQuery example_params None None =
       Inl (Error ''Either metricType or rollup must be specified'')
   \<and> rollup example_api_params = None
   \<and> getDynamicMetrics (metrics_client (\<lambda>b. (None, Some b)))
        example_api_params ''org_123'' ''proj_456'' ''env_789''
      = ([], Inl (Error ''rollup parameter is required for dynamic metrics''))"
proof -
  have r: "rollup example_params = None"
    "rollup example_api_params = None"
    by (simp_all add: example_params_def example_api_params_def)
  from missing_rollup_throws [of example_params None
      example_api_params "metrics_client (\<lambda>b. (None, Some b))"
      "''org_123''" "''proj_456''" "''env_789''"] r
  show ?thesis by blast
qed

section \<open>Custom metrics\<close>

text \<open>
  C10: the base query of \<^verbatim>\<open>getCustomMetrics\<close> is its query text followed by
  \<open>WHERE <column> > 0\<close> exactly when the aggregation is sum, avg, min or max; for count
  nothing is appended to the query text.
\<close>

theorem getCustomMetrics_where_clause:
  "(baseQuery (getCustomMetrics metric a c s)
      = custom_baseQuery a c @ ''WHERE '' @ c @ '' > 0''
    \<longleftrightarrow> a \<in> {AggSum, AggAvg, AggMin, AggMax})
   \<and> (a = AggCount \<longrightarrow> baseQuery (getCustomMetrics metric a c s) = custom_baseQuery a c)"
  by (cases a) (simp_all add: getCustomMetrics_def ch_queryBuilder_def custom_whereClause_def)

text \<open>C10 for the count of \<open>run_id\<close> and the sum of \<open>cost_in_cents\<close>.\<close>

theorem getCustomMetrics_where_clause_witness:
  "baseQuery (getCustomMetrics ''runs'' AggCount ''run_id'' None)
     = nl @ ''    SELECT'' @ nl
          @ ''      toStartOfMinute(toDateTime(created_at)) as timestamp,'' @ nl
          @ ''      count(run_id) as value,'' @ nl
          @ ''      task_identifier as label'' @ nl
          @ ''    FROM trigger_dev.task_runs_v2 FINAL'' @ nl
          @ ''  ''
   \<and> baseQuery (getCustomMetrics ''cost'' AggSum ''cost_in_cents'' None)
     = nl @ ''    SELECT'' @ nl
          @ ''      toStartOfMinute(toDateTime(created_at)) as timestamp,'' @ nl
          @ ''      sum(cost_in_cents) as value,'' @ nl
          @ ''      task_identifier as label'' @ nl
          @ ''    FROM trigger_dev.task_runs_v2 FINAL'' @ nl
          @ ''  WHERE cost_in_cents > 0''"
  using getCustomMetrics_where_clause [of "''runs''" AggCount "''run_id''" None]
    getCustomMetrics_where_clause [of "''cost''" AggSum "''cost_in_cents''" None]
  by (simp add: custom_baseQuery_def getTimeBucketFunction_def eval_grammar)

section \<open>The metrics resource route\<close>






end
